theory Spec2Isabelle
  imports Main
begin

section \<open>Dates and number rendering\<close>

text \<open>
  A JavaScript \<open>Date\<close> is modelled by its calendar day: the number of days since
  1970-01-01 (day 0). Every date of the program is a local midnight (a date picker or
  \<open>new Date(y, m, d)\<close>), so comparing two dates is comparing their day numbers, and
  date-fns' \<open>addDays\<close>, which moves the calendar day and keeps the time of day, is
  addition. \<open>addWeeks(d, n)\<close> is \<open>addDays(d, 7 * n)\<close> in date-fns.
  The week counts are JavaScript numbers holding integers; they are modelled as \<open>int\<close>,
  negative values included.
\<close>

type_synonym date = int

definition addDays :: "date \<Rightarrow> int \<Rightarrow> date" where
  "addDays d amount = d + amount"

definition addWeeks :: "date \<Rightarrow> int \<Rightarrow> date" where
  "addWeeks d amount = addDays d (amount * 7)"

text \<open>The decimal rendering of an integer, as a template literal or \<open>toString()\<close> gives it.\<close>

fun digitsOf :: "nat \<Rightarrow> string" where
  "digitsOf n =
     (if n < 10 then [char_of (48 + n)]
      else digitsOf (n div 10) @ [char_of (48 + n mod 10)])"

declare digitsOf.simps [simp del]

definition numToString :: "int \<Rightarrow> string" where
  "numToString i = (if i < 0 then CHR ''-'' # digitsOf (nat (- i)) else digitsOf (nat i))"

text \<open>
  date-fns' \<open>format\<close> for the tokens the program uses. The civil date of a day number
  is computed in the proleptic Gregorian calendar; \<open>d\<close> is the day of the month,
  \<open>dd\<close> the same on two digits, \<open>MMM\<close> the abbreviated English month name and
  \<open>yyyy\<close> the year on at least four digits. A pattern is given as its token list:
  \<open>'d-MMM'\<close> is \<open>[Tok_d, Lit ''-'', Tok_MMM]\<close>.
\<close>

definition civilOfDay :: "date \<Rightarrow> int \<times> int \<times> int" where
  "civilOfDay z0 =
     (let z = z0 + 719468;
          era = z div 146097;
          doe = z mod 146097;
          yoe = (doe - doe div 1460 + doe div 36524 - doe div 146096) div 365;
          y = yoe + era * 400;
          doy = doe - (365 * yoe + yoe div 4 - yoe div 100);
          mp = (5 * doy + 2) div 153;
          d = doy - (153 * mp + 2) div 5 + 1;
          m = (if mp < 10 then mp + 3 else mp - 9)
      in (if m \<le> 2 then y + 1 else y, m, d))"

definition monthNames :: "string list" where
  "monthNames = [''Jan'', ''Feb'', ''Mar'', ''Apr'', ''May'', ''Jun'',
                 ''Jul'', ''Aug'', ''Sep'', ''Oct'', ''Nov'', ''Dec'']"

definition padZeros :: "nat \<Rightarrow> int \<Rightarrow> string" where
  "padZeros w i =
     (let s = digitsOf (nat \<bar>i\<bar>)
      in (if i < 0 then ''-'' else []) @ replicate (w - length s) (CHR ''0'') @ s)"

datatype formatToken = Tok_d | Tok_dd | Tok_MMM | Tok_yyyy | Lit string

fun formatOne :: "date \<Rightarrow> formatToken \<Rightarrow> string" where
  "formatOne dt Tok_d = (case civilOfDay dt of (y, m, d) \<Rightarrow> numToString d)"
| "formatOne dt Tok_dd = (case civilOfDay dt of (y, m, d) \<Rightarrow> padZeros 2 d)"
| "formatOne dt Tok_MMM = (case civilOfDay dt of (y, m, d) \<Rightarrow> monthNames ! nat (m - 1))"
| "formatOne dt Tok_yyyy = (case civilOfDay dt of (y, m, d) \<Rightarrow> padZeros 4 y)"
| "formatOne dt (Lit s) = s"

definition format :: "date \<Rightarrow> formatToken list \<Rightarrow> string" where
  "format dt pattern = concat (map (formatOne dt) pattern)"

section \<open>Data model (calendar-utils.ts)\<close>

record SemesterConfig =
  startDate :: date
  weeksCount :: int
  includeOrientation :: bool
  deadWeeks :: int
  examWeeks :: int
  vacationWeeks :: int

record CalendarConfig =
  academicYear :: string
  faculty :: string
  university :: string
  batches :: "string list"
  firstSemester :: SemesterConfig
  secondSemester :: SemesterConfig
  includeIndustrialTraining :: bool
  graduationDate :: "date option"

text \<open>
  The tagged union \<open>WeekStatus\<close>. A \<open>label\<close> field whose type is a string literal
  (\<open>'DW'\<close>, \<open>'EX'\<close>, \<open>'EX-END'\<close>, \<open>'Vaca.'\<close>, \<open>'IT'\<close>) has one possible value and is
  given by \<open>labelOf\<close>; the label of \<open>graduation\<close> has type \<open>string\<close> and is stored.
  \<open>lecture\<close> carries \<open>semesterNumber\<close> and \<open>weekNumber\<close>, \<open>industrialTraining\<close>
  carries \<open>weekNumber\<close>.
\<close>

datatype WeekStatus =
    lecture int int
  | orientation
  | deadWeek
  | exam
  | examEnd
  | vacation
  | industrialTraining int
  | graduation string

fun statusType :: "WeekStatus \<Rightarrow> string" where
  "statusType (lecture s w) = ''lecture''"
| "statusType orientation = ''orientation''"
| "statusType deadWeek = ''deadWeek''"
| "statusType exam = ''exam''"
| "statusType examEnd = ''examEnd''"
| "statusType vacation = ''vacation''"
| "statusType (industrialTraining w) = ''industrialTraining''"
| "statusType (graduation l) = ''graduation''"

fun labelOf :: "WeekStatus \<Rightarrow> string" where
  "labelOf deadWeek = ''DW''"
| "labelOf exam = ''EX''"
| "labelOf examEnd = ''EX-END''"
| "labelOf vacation = ''Vaca.''"
| "labelOf (industrialTraining w) = ''IT''"
| "labelOf (graduation l) = l"
| "labelOf (lecture s w) = []"
| "labelOf orientation = []"

record CalendarWeek =
  weekNumber :: int
  startDate :: date
  endDate :: date
  label :: string
  status :: "string \<rightharpoonup> WeekStatus"

text \<open>
  \<open>xs[i]\<close> in JavaScript: the element, or \<open>undefined\<close> (here \<open>None\<close>) out of range.
  A batch key is a string, so \<open>batchKey === xs[i]\<close> is false when \<open>xs[i]\<close> is undefined.
\<close>

definition atIndex :: "'a list \<Rightarrow> int \<Rightarrow> 'a option" where
  "atIndex xs i = (if 0 \<le> i \<and> i < int (length xs) then Some (xs ! nat i) else None)"

section \<open>The calendar generator\<close>

definition determineWeekStatus :: "int \<Rightarrow> date \<Rightarrow> CalendarConfig \<Rightarrow> string \<Rightarrow> WeekStatus" where
  "determineWeekStatus weekIdx weekStartDate config batchKey =
     (let firstSemConfig = firstSemester config;
          secondSemConfig = secondSemester config;
          firstSemEndWeek = weeksCount firstSemConfig + deadWeeks firstSemConfig
                            + examWeeks firstSemConfig + vacationWeeks firstSemConfig
      in
      if weekIdx \<le> weeksCount firstSemConfig then lecture 1 weekIdx
      else if weekIdx > weeksCount firstSemConfig
              \<and> weekIdx \<le> weeksCount firstSemConfig + deadWeeks firstSemConfig then deadWeek
      else if weekIdx > weeksCount firstSemConfig + deadWeeks firstSemConfig
              \<and> weekIdx \<le> weeksCount firstSemConfig + deadWeeks firstSemConfig
                             + examWeeks firstSemConfig then exam
      else if weekIdx = weeksCount firstSemConfig + deadWeeks firstSemConfig
                        + examWeeks firstSemConfig
           then (if atIndex (batches config) 0 = Some batchKey then examEnd else exam)
      else if weekIdx > weeksCount firstSemConfig + deadWeeks firstSemConfig
                        + examWeeks firstSemConfig
              \<and> weekIdx \<le> firstSemEndWeek then vacation
      else
       (let secondSemStartWeek = firstSemEndWeek + 1 in
        if weekIdx = secondSemStartWeek
           \<and> atIndex (batches config) (int (length (batches config)) - 1) = Some batchKey
           \<and> includeOrientation secondSemConfig then orientation
        else
         (let secondSemLectureEndWeek = secondSemStartWeek + weeksCount secondSemConfig - 1 in
          if weekIdx \<ge> secondSemStartWeek \<and> weekIdx \<le> secondSemLectureEndWeek
          then (if atIndex (batches config) 0 = Some batchKey \<and> includeIndustrialTraining config
                then industrialTraining (weekIdx - secondSemStartWeek + 1)
                else lecture 2 (weekIdx - secondSemStartWeek + 1))
          else
           (let secondSemDeadWeekEnd = secondSemLectureEndWeek + deadWeeks secondSemConfig in
            if weekIdx > secondSemLectureEndWeek \<and> weekIdx \<le> secondSemDeadWeekEnd then deadWeek
            else
             (let secondSemExamWeekEnd = secondSemDeadWeekEnd + examWeeks secondSemConfig in
              if weekIdx > secondSemDeadWeekEnd \<and> weekIdx \<le> secondSemExamWeekEnd then exam
              else if weekIdx = secondSemExamWeekEnd
                   then (if atIndex (batches config) 0 = Some batchKey then examEnd else exam)
              else if (case graduationDate config of
                         None \<Rightarrow> False
                       | Some g \<Rightarrow> atIndex (batches config) 0 = Some batchKey
                                  \<and> weekStartDate \<le> g \<and> g \<le> addDays weekStartDate 6)
                   then graduation ''Graduation''
              else vacation)))))"

definition totalWeeks :: int where
  "totalWeeks = 52"

text \<open>
  One pass of the outer loop body: the week record of index \<open>weekIdx\<close> starting at
  \<open>weekStartDate\<close>. The inner loop assigns \<open>week.status[batchKey]\<close> for the batches in
  order, a later assignment to the same key replacing an earlier one.
\<close>

definition makeWeek :: "CalendarConfig \<Rightarrow> int \<Rightarrow> date \<Rightarrow> CalendarWeek" where
  "makeWeek config weekIdx weekStartDate =
     (let weekEndDate = addDays weekStartDate 4
      in \<lparr> weekNumber = weekIdx,
           startDate = weekStartDate,
           endDate = weekEndDate,
           label = format weekStartDate [Tok_d, Lit ''-'', Tok_MMM] @ '' to ''
                   @ format weekEndDate [Tok_d, Lit ''-'', Tok_MMM],
           status = fold (\<lambda>batchKey st.
                            st(batchKey \<mapsto> determineWeekStatus weekIdx weekStartDate config batchKey))
                         (batches config) Map.empty \<rparr>)"

function weeksLoop :: "CalendarConfig \<Rightarrow> int \<Rightarrow> date \<Rightarrow> CalendarWeek list \<Rightarrow> CalendarWeek list" where
  "weeksLoop config weekIdx currentDate weeks =
     (if weekIdx \<le> totalWeeks
      then weeksLoop config (weekIdx + 1) (addWeeks currentDate 1)
                     (weeks @ [makeWeek config weekIdx currentDate])
      else weeks)"
  by pat_completeness auto
termination
  by (relation "measure (\<lambda>(config, weekIdx, currentDate, weeks). nat (totalWeeks + 1 - weekIdx))")
     (auto simp: totalWeeks_def)

declare weeksLoop.simps [simp del]

definition generateCalendarWeeks :: "CalendarConfig \<Rightarrow> CalendarWeek list" where
  "generateCalendarWeeks config =
     weeksLoop config 1 (SemesterConfig.startDate (firstSemester config)) []"


section \<open>The display mapping\<close>

text \<open>
  The three \<open>switch\<close> statements over \<open>status.type\<close>. The union is closed, so their
  \<open>default\<close> branches are taken only where the source groups several types under
  \<open>default\<close> (the black text colour).
\<close>

fun getColorForStatus :: "WeekStatus \<Rightarrow> string" where
  "getColorForStatus (lecture s w) = ''#ffffff''"
| "getColorForStatus orientation = ''#ffff00''"
| "getColorForStatus deadWeek = ''#ff6600''"
| "getColorForStatus exam = ''#3366ff''"
| "getColorForStatus examEnd = ''#ff0000''"
| "getColorForStatus vacation = ''#ccffcc''"
| "getColorForStatus (industrialTraining w) = ''#b2a1c7''"
| "getColorForStatus (graduation l) = ''#ff00ff''"

fun getTextColorForStatus :: "WeekStatus \<Rightarrow> string" where
  "getTextColorForStatus exam = ''#ffffff''"
| "getTextColorForStatus examEnd = ''#ffffff''"
| "getTextColorForStatus _ = ''#000000''"

fun getStatusDisplayText :: "WeekStatus \<Rightarrow> string" where
  "getStatusDisplayText (lecture s w) =
     ''L'' @ numToString s @ '', S'' @ numToString s @ '' - '' @ numToString w"
| "getStatusDisplayText orientation = ''Orientation''"
| "getStatusDisplayText deadWeek = labelOf deadWeek"
| "getStatusDisplayText exam = labelOf exam"
| "getStatusDisplayText examEnd = labelOf examEnd"
| "getStatusDisplayText vacation = labelOf vacation"
| "getStatusDisplayText (industrialTraining w) = ''IT - '' @ numToString w"
| "getStatusDisplayText (graduation l) = labelOf (graduation l)"

section \<open>The spreadsheet exporter (excel-utils.ts)\<close>

text \<open>
  The worksheet as the program builds it through the spreadsheet library: the column
  definitions, the rows of the sheet from row 1 on, and the merged ranges. Row 1 is the
  row of column headers that assigning \<open>worksheet.columns\<close> writes; \<open>addRow\<close> appends
  below the last row, so the first appended row is row 2. A cell has a value (\<open>None\<close>
  while nothing is assigned), the style objects assigned to it and, when it lies in a
  merged range without being its first cell, the column of that first cell, its master.
  \<open>getStatusDisplayText(undefined)\<close> reads a property of \<open>undefined\<close> and throws a
  \<open>TypeError\<close>, which rejects the export before anything is saved.
  The saved file is represented by its name, its MIME type and the sheet it is written
  from; the library's encoding of the workbook into bytes is outside the program.
\<close>

datatype exportError = TypeError

record Font =
  bold :: bool
  fontSize :: int
  color :: "string option"

record Alignment =
  horizontal :: string
  vertical :: "string option"

record Border =
  borderTop :: string
  borderLeft :: string
  borderBottom :: string
  borderRight :: string

record Fill =
  fillType :: string
  pattern :: string
  fgColor :: string

record Cell =
  cellValue :: "string option"
  fill :: "Fill option"
  font :: "Font option"
  alignment :: "Alignment option"
  border :: "Border option"
  master :: "nat option"

record Row =
  cells :: "Cell list"
  height :: "int option"

record Worksheet =
  sheetName :: string
  columns :: "(string \<times> int) list"
  rows :: "Row list"
  merges :: "(int \<times> int \<times> int \<times> int) list"

record SavedFile =
  fileName :: string
  mimeType :: string
  sheet :: Worksheet

definition nullCell :: Cell where
  "nullCell = \<lparr> cellValue = None, fill = None, font = None, alignment = None, border = None,
                master = None \<rparr>"

definition valueCell :: "string \<Rightarrow> Cell" where
  "valueCell v = nullCell \<lparr> cellValue := Some v \<rparr>"

text \<open>\<open>addRow(values)\<close>: a new row holding the values, with no height set.\<close>

definition newRow :: "string list \<Rightarrow> Row" where
  "newRow vs = \<lparr> cells = map valueCell vs, height = None \<rparr>"

text \<open>
  \<open>row.getCell(k)\<close> followed by assignments to the cell: columns count from 1, and a cell
  beyond the row's last one is created, with empty cells before it.
\<close>

definition modifyCell :: "nat \<Rightarrow> (Cell \<Rightarrow> Cell) \<Rightarrow> Cell list \<Rightarrow> Cell list" where
  "modifyCell k f cs =
     (let padded = cs @ replicate (k - length cs) nullCell
      in padded [k - 1 := f (padded ! (k - 1))])"

text \<open>
  \<open>mergeCells(r, left, r, right)\<close> on the cells of row \<open>r\<close>: every cell of the range but
  the first becomes a merged cell, which shows the value of the first cell and takes its
  style.
\<close>

definition mergeCellsInRow :: "nat \<Rightarrow> nat \<Rightarrow> Cell list \<Rightarrow> Cell list" where
  "mergeCellsInRow left right cs =
     (let withMaster = modifyCell left (\<lambda>c. c) cs;
          m = withMaster ! (left - 1)
      in fold (\<lambda>col row. modifyCell col (\<lambda>c. m \<lparr> master := Some left \<rparr>) row)
              [Suc left..<Suc right] withMaster)"

definition mergeRow :: "nat \<Rightarrow> nat \<Rightarrow> Row \<Rightarrow> Row" where
  "mergeRow left right r = r \<lparr> cells := mergeCellsInRow left right (cells r) \<rparr>"

text \<open>\<open>s.replace('#', '')\<close>: the first \<open>#\<close> of the string is removed.\<close>

fun removeHash :: "string \<Rightarrow> string" where
  "removeHash [] = []"
| "removeHash (c # cs) = (if c = CHR ''#'' then cs else c # removeHash cs)"

definition centerMiddle :: Alignment where
  "centerMiddle = \<lparr> horizontal = ''center'', vertical = Some ''middle'' \<rparr>"

definition thinBorder :: Border where
  "thinBorder = \<lparr> borderTop = ''thin'', borderLeft = ''thin'',
                   borderBottom = ''thin'', borderRight = ''thin'' \<rparr>"

definition sheetColumns :: "CalendarConfig \<Rightarrow> (string \<times> int) list" where
  "sheetColumns config =
     [('''', 4), (''Year'', 10), (''Start Date'', 12), (''End Date'', 12),
      ('''', 4), (''Week'', 8), ('''', 4), ('''', 4)]
     @ map (\<lambda>batch. (batch, 15)) (batches config)"

text \<open>
  Assigning \<open>worksheet.columns\<close> writes the header of each column, the empty ones
  included, into row 1 of the sheet.
\<close>

definition columnHeaderRow :: "CalendarConfig \<Rightarrow> Row" where
  "columnHeaderRow config = newRow (map fst (sheetColumns config))"

definition titleRow :: "CalendarConfig \<Rightarrow> Row" where
  "titleRow config =
     \<lparr> cells = modifyCell 2
         (\<lambda>c. c \<lparr> cellValue := Some (''ACADEMIC CALENDAR FOR THE YEAR '' @ academicYear config
                                      @ '' - '' @ faculty config @ '', '' @ university config),
                   font := Some \<lparr> bold = True, fontSize = 12, color = None \<rparr>,
                   alignment := Some centerMiddle \<rparr>)
         (cells (newRow ['''', ''''])),
       height = Some 20 \<rparr>"

text \<open>The batch names are written from column 9 on, in the order of \<open>config.batches\<close>.\<close>

fun setBatchHeaders :: "string list \<Rightarrow> nat \<Rightarrow> Cell list \<Rightarrow> Cell list" where
  "setBatchHeaders [] index cs = cs"
| "setBatchHeaders (batch # rest) index cs =
     setBatchHeaders rest (Suc index)
       (modifyCell (9 + index) (\<lambda>c. c \<lparr> cellValue := Some batch \<rparr>) cs)"

text \<open>\<open>eachCell\<close> styles the header cells whose value is truthy: a non-empty string.\<close>

definition styleHeaderCell :: "Cell \<Rightarrow> Cell" where
  "styleHeaderCell c =
     (if cellValue c \<noteq> None \<and> cellValue c \<noteq> Some []
      then c \<lparr> font := Some \<lparr> bold = True, fontSize = 10, color = None \<rparr>,
               alignment := Some centerMiddle,
               border := Some \<lparr> borderTop = ''thick'', borderLeft = ''thin'',
                                 borderBottom = ''thick'', borderRight = ''thick'' \<rparr> \<rparr>
      else c)"

definition headerRow :: "CalendarConfig \<Rightarrow> Row" where
  "headerRow config =
     \<lparr> cells = map styleHeaderCell
         (setBatchHeaders (batches config) 0
            (cells (newRow ['''', ''Year / Dates'', '''', '''', '''', ''Week'', '''', '''']))),
       height = Some 20 \<rparr>"

text \<open>
  The inner loop of a data row: for each batch in order, the status is read from
  \<open>week.status[batch]\<close> and the cell at column \<open>9 + batchIndex\<close> gets its text and style.
\<close>

definition statusCell :: "WeekStatus \<Rightarrow> Cell \<Rightarrow> Cell" where
  "statusCell st c =
     c \<lparr> cellValue := Some (getStatusDisplayText st),
         fill := Some \<lparr> fillType = ''pattern'', pattern = ''solid'',
                        fgColor = removeHash (getColorForStatus st) \<rparr>,
         font := Some \<lparr> bold = False, fontSize = 10,
                        color = Some (removeHash (getTextColorForStatus st)) \<rparr>,
         alignment := Some centerMiddle,
         border := Some thinBorder \<rparr>"

fun addBatchStatuses ::
  "CalendarWeek \<Rightarrow> string list \<Rightarrow> nat \<Rightarrow> Cell list \<Rightarrow> exportError + Cell list" where
  "addBatchStatuses week [] batchIndex cs = Inr cs"
| "addBatchStatuses week (batch # rest) batchIndex cs =
     (case status week batch of
        None \<Rightarrow> Inl TypeError
      | Some st \<Rightarrow>
          addBatchStatuses week rest (Suc batchIndex)
            (modifyCell (9 + batchIndex) (statusCell st) cs))"

definition styleDateCell :: "Cell \<Rightarrow> Cell" where
  "styleDateCell c =
     c \<lparr> font := Some \<lparr> bold = False, fontSize = 10, color = None \<rparr>,
         alignment := Some centerMiddle,
         border := Some thinBorder \<rparr>"

text \<open>The year, start date, end date and week number cells: columns 2, 3, 4 and 6.\<close>

definition styleDateCells :: "Cell list \<Rightarrow> Cell list" where
  "styleDateCells cs =
     modifyCell 6 styleDateCell
       (modifyCell 4 styleDateCell
         (modifyCell 3 styleDateCell
           (modifyCell 2 styleDateCell cs)))"

definition dataRow :: "CalendarWeek \<Rightarrow> CalendarConfig \<Rightarrow> exportError + Row" where
  "dataRow week config =
     (let year = format (CalendarWeek.startDate week) [Tok_yyyy];
          startDateStr = format (CalendarWeek.startDate week) [Tok_dd, Lit ''-'', Tok_MMM];
          endDateStr = format (endDate week) [Tok_dd, Lit ''-'', Tok_MMM];
          row = newRow ['''', year, startDateStr, endDateStr, '''',
                        numToString (weekNumber week), '''', '''']
      in case addBatchStatuses week (batches config) 0 (cells row) of
           Inl e \<Rightarrow> Inl e
         | Inr cs \<Rightarrow>
             Inr \<lparr> cells = styleDateCells cs, height = Some 18 \<rparr>)"

text \<open>The outer loop: one data row per element of \<open>calendarWeeks\<close>, in order.\<close>

fun dataRows :: "CalendarWeek list \<Rightarrow> CalendarConfig \<Rightarrow> exportError + Row list" where
  "dataRows [] config = Inr []"
| "dataRows (week # rest) config =
     (case dataRow week config of
        Inl e \<Rightarrow> Inl e
      | Inr r \<Rightarrow> (case dataRows rest config of Inl e \<Rightarrow> Inl e | Inr rs \<Rightarrow> Inr (r # rs)))"

text \<open>
  The legend: a heading row and five items; the last five rows of the sheet are then
  styled (column 2 bold, column 3 centred, column 4 in size 9).
\<close>

definition legendHeading :: Row where
  "legendHeading =
     \<lparr> cells = modifyCell 2 (\<lambda>c. c \<lparr> font := Some \<lparr> bold = True, fontSize = 10, color = None \<rparr> \<rparr>)
                 (cells (newRow ['''', ''Legend:''])),
       height = None \<rparr>"

definition styleLegendRow :: "Row \<Rightarrow> Row" where
  "styleLegendRow r =
     r \<lparr> cells :=
           modifyCell 4 (\<lambda>c. c \<lparr> font := Some \<lparr> bold = False, fontSize = 9, color = None \<rparr> \<rparr>)
             (modifyCell 3 (\<lambda>c. c \<lparr> alignment := Some \<lparr> horizontal = ''center'', vertical = None \<rparr> \<rparr>)
               (modifyCell 2 (\<lambda>c. c \<lparr> font := Some \<lparr> bold = True, fontSize = 9, color = None \<rparr> \<rparr>)
                 (cells r))) \<rparr>"

definition legendItems :: "Row list" where
  "legendItems =
     map (styleLegendRow \<circ> newRow)
       [['''', ''DW'', '':'', ''Dead Week''],
        ['''', ''EX'', '':'', ''End Semester Examination''],
        ['''', ''Vaca'', '':'', ''Vacation''],
        ['''', ''IT'', '':'', ''Industrial Training''],
        ['''', ''EX-END'', '':'', ''Final Exam Ending Week'']]"

text \<open>
  The sheet: row 1 holds the column headers, row 2 the title, row 4 the header row with
  the batch names, and the data rows start at row 6. \<open>mergeCells(1, 2, 1, 8 + n)\<close> is
  called when the title row has been added and merges columns 2 to \<open>8 + n\<close> of row 1;
  \<open>mergeCells(4, 2, 4, 4)\<close> is called after the header row is styled and merges columns 2
  to 4 of row 4, the header row.
\<close>

definition exportToExcel :: "CalendarWeek list \<Rightarrow> CalendarConfig \<Rightarrow> exportError + SavedFile" where
  "exportToExcel calendarWeeks config =
     (case dataRows calendarWeeks config of
        Inl e \<Rightarrow> Inl e
      | Inr rs \<Rightarrow>
          Inr \<lparr> fileName = ''Academic_Calendar_'' @ academicYear config @ ''.xlsx'',
                mimeType = ''application/vnd.openxmlformats-officedocument.spreadsheetml.sheet'',
                sheet =
                  \<lparr> sheetName = ''Academic Calendar'',
                    columns = sheetColumns config,
                    rows = [mergeRow 2 (8 + length (batches config)) (columnHeaderRow config),
                            titleRow config, newRow [],
                            mergeRow 2 4 (headerRow config), newRow []]
                           @ rs
                           @ [newRow [], newRow [], legendHeading]
                           @ legendItems,
                    merges = [(1, 2, 1, 8 + int (length (batches config))), (4, 2, 4, 4)] \<rparr> \<rparr>)"

section \<open>The scenario of the specification\<close>

text \<open>
  The configuration of the round-trip scenario: 2025-08-15 is day 20315, 2026-01-15 is day
  20468 and 2026-06-15 is day 20619.
\<close>

definition scenario :: CalendarConfig where
  "scenario =
     \<lparr> academicYear = ''2025-2026'',
       faculty = ''Faculty of Applied Science'',
       university = ''University of Vavuniya'',
       batches = [''FAS/21'', ''FAS/22'', ''FAS/23'', ''FAS/24'', ''FAS/25''],
       firstSemester =
         \<lparr> SemesterConfig.startDate = 20315, weeksCount = 15, includeOrientation = True,
           deadWeeks = 1, examWeeks = 3, vacationWeeks = 3 \<rparr>,
       secondSemester =
         \<lparr> SemesterConfig.startDate = 20468, weeksCount = 15, includeOrientation = False,
           deadWeeks = 1, examWeeks = 3, vacationWeeks = 3 \<rparr>,
       includeIndustrialTraining = True,
       graduationDate = Some 20619 \<rparr>"

text \<open>The scenario with an orientation week in the second semester.\<close>

definition scenarioWithOrientation :: CalendarConfig where
  "scenarioWithOrientation =
     scenario \<lparr> secondSemester := (secondSemester scenario) \<lparr> includeOrientation := True \<rparr> \<rparr>"

text \<open>
  The boundary configuration: one lecture week, no dead week, one exam week and no vacation
  week in both semesters, and no graduation date.
\<close>

definition boundaryConfig :: CalendarConfig where
  "boundaryConfig =
     scenario \<lparr> firstSemester := (firstSemester scenario)
                   \<lparr> weeksCount := 1, deadWeeks := 0, examWeeks := 1, vacationWeeks := 0 \<rparr>,
                secondSemester := (secondSemester scenario)
                   \<lparr> weeksCount := 1, deadWeeks := 0, examWeeks := 1, vacationWeeks := 0 \<rparr>,
                graduationDate := None \<rparr>"

section \<open>The loop of the generator\<close>

text \<open>
  The loop runs for the indices 1 to 52 and appends one week per index, each starting seven
  days after the one before.
\<close>

lemma weeksLoop_unfold:
  "weekIdx \<le> 53 \<Longrightarrow>
   weeksLoop config weekIdx currentDate weeks =
     weeks @ map (\<lambda>k. makeWeek config (weekIdx + int k) (addDays currentDate (7 * int k)))
                 [0..<nat (53 - weekIdx)]"
proof (induction config weekIdx currentDate weeks rule: weeksLoop.induct)
  case (1 config weekIdx currentDate weeks)
  show ?case
  proof (cases "weekIdx \<le> totalWeeks")
    case True
    then have le: "weekIdx + 1 \<le> 53" by (simp add: totalWeeks_def)
    have n: "nat (53 - weekIdx) = Suc (nat (53 - (weekIdx + 1)))"
      using True by (simp add: totalWeeks_def)
    have "weeksLoop config weekIdx currentDate weeks =
          weeksLoop config (weekIdx + 1) (addWeeks currentDate 1)
                    (weeks @ [makeWeek config weekIdx currentDate])"
      using True by (subst weeksLoop.simps) simp
    also have "\<dots> = (weeks @ [makeWeek config weekIdx currentDate]) @
          map (\<lambda>k. makeWeek config (weekIdx + 1 + int k) (addDays (addWeeks currentDate 1) (7 * int k)))
              [0..<nat (53 - (weekIdx + 1))]"
      using "1.IH" [OF True le] .
    also have "\<dots> = weeks @ map (\<lambda>k. makeWeek config (weekIdx + int k) (addDays currentDate (7 * int k)))
                 [0..<nat (53 - weekIdx)]"
      unfolding n upt_conv_Cons [OF zero_less_Suc] 
      by (simp add: map_Suc_upt [symmetric] addDays_def addWeeks_def algebra_simps del: upt_Suc)
    finally show ?thesis .
  next
    case False
    with "1.prems" have "weekIdx = 53" by (simp add: totalWeeks_def)
    then show ?thesis by (subst weeksLoop.simps) (simp add: totalWeeks_def)
  qed
qed

lemma generateCalendarWeeks_map:
  "generateCalendarWeeks config =
     map (\<lambda>k. makeWeek config (1 + int k)
                 (addDays (SemesterConfig.startDate (firstSemester config)) (7 * int k)))
         [0..<52]"
  by (simp add: generateCalendarWeeks_def weeksLoop_unfold)

lemma fold_status:
  "fold (\<lambda>batchKey st. st(batchKey \<mapsto> f batchKey)) bs m b =
     (if b \<in> set bs then Some (f b) else m b)"
  by (induction bs arbitrary: m) auto

lemma status_makeWeek:
  "status (makeWeek config weekIdx d) b =
     (if b \<in> set (batches config) then Some (determineWeekStatus weekIdx d config b) else None)"
  by (simp add: makeWeek_def Let_def fold_status)

lemma determineWeekStatus_not_examEnd:
  "determineWeekStatus weekIdx d config b \<noteq> examEnd"
  by (simp add: determineWeekStatus_def Let_def)

lemma makeWeek_fields:
  "weekNumber (makeWeek config weekIdx d) = weekIdx"
  "CalendarWeek.startDate (makeWeek config weekIdx d) = d"
  "endDate (makeWeek config weekIdx d) = addDays d 4"
  by (simp_all add: makeWeek_def Let_def)

lemma upto_as_map: "[1..int n] = map (\<lambda>k. 1 + int k) [0..<n]"
proof (induction n)
  case 0
  show ?case by simp
next
  case (Suc n)
  have "[1..int (Suc n)] = [1..int n] @ [int n + 1]"
    by (simp add: upto_rec2)
  with Suc show ?case by simp
qed

section \<open>C3: 52 contiguous weeks\<close>

text \<open>
  C3. For every configuration the generator returns exactly 52 weeks, numbered 1 to 52 in
  order; week \<open>i\<close> starts at \<open>firstSemester.startDate + 7 * (i - 1)\<close> days and ends
  four days after its start; each week after the first starts seven days after the week
  before it (the start dates of weeks 2..52 are those of weeks 1..51 plus seven days).
  Dates are day numbers, so the offsets are written as sums of days.
\<close>

theorem generate_52:
  "length (generateCalendarWeeks config) = 52
   \<and> map weekNumber (generateCalendarWeeks config) = [1..52]
   \<and> map CalendarWeek.startDate (generateCalendarWeeks config) =
       map (\<lambda>i. SemesterConfig.startDate (firstSemester config) + 7 * (i - 1)) [1..52]
   \<and> map endDate (generateCalendarWeeks config) =
       map (\<lambda>w. CalendarWeek.startDate w + 4) (generateCalendarWeeks config)
   \<and> map CalendarWeek.startDate (tl (generateCalendarWeeks config)) =
       map (\<lambda>w. CalendarWeek.startDate w + 7) (butlast (generateCalendarWeeks config))"
proof -
  let ?s = "SemesterConfig.startDate (firstSemester config)"
  let ?g = "generateCalendarWeeks config"
  have u: "[1..52] = map (\<lambda>k. 1 + int k) [0..<52]"
    using upto_as_map [of 52] by simp
  have a: "length ?g = 52" by (simp add: generateCalendarWeeks_map)
  have b: "map weekNumber ?g = [1..52]"
    unfolding u by (simp add: generateCalendarWeeks_map makeWeek_fields comp_def del: upt_Suc)
  have c: "map CalendarWeek.startDate ?g = map (\<lambda>i. ?s + 7 * (i - 1)) [1..52]"
    unfolding u
    by (simp add: generateCalendarWeeks_map makeWeek_fields comp_def addDays_def del: upt_Suc)
  have d: "map endDate ?g = map (\<lambda>w. CalendarWeek.startDate w + 4) ?g"
    by (simp add: generateCalendarWeeks_map makeWeek_fields comp_def addDays_def del: upt_Suc)
  have e: "map CalendarWeek.startDate (tl ?g) =
           map (\<lambda>w. CalendarWeek.startDate w + 7) (butlast ?g)"
  proof -
    have t: "[Suc 0..<52] = map Suc [0..<51]"
      by (simp add: map_Suc_upt del: upt_Suc)
    have bl: "butlast [0..<52::nat] = [0..<51]"
      by (simp add: butlast_conv_take del: upt_Suc)
    show ?thesis
      by (simp add: generateCalendarWeeks_map map_tl [symmetric] map_butlast [symmetric] t bl
            makeWeek_fields comp_def addDays_def algebra_simps del: upt_Suc)
  qed
  from a b c d e show ?thesis by blast
qed


section \<open>Reading the generated weeks\<close>

lemma generate_numbers: "map weekNumber (generateCalendarWeeks config) = [1..52]"
proof -
  have "[1..52] = map (\<lambda>k. 1 + int k) [0..<52]"
    using upto_as_map [of 52] by simp
  then show ?thesis
    by (simp add: generateCalendarWeeks_map makeWeek_fields comp_def del: upt_Suc)
qed

lemma length_generate: "length (generateCalendarWeeks config) = 52"
  by (simp add: generateCalendarWeeks_map)

lemma nth_generate:
  "k < 52 \<Longrightarrow> generateCalendarWeeks config ! k =
     makeWeek config (1 + int k) (addDays (SemesterConfig.startDate (firstSemester config)) (7 * int k))"
  by (simp add: generateCalendarWeeks_map del: upt_Suc)

lemma in_generate:
  "w \<in> set (generateCalendarWeeks config) \<Longrightarrow>
   \<exists>k<52. w = makeWeek config (1 + int k)
                 (addDays (SemesterConfig.startDate (firstSemester config)) (7 * int k))"
  by (auto simp: generateCalendarWeeks_map simp del: upt_Suc)

lemma status_generated:
  assumes "w \<in> set (generateCalendarWeeks config)" and "status w b = Some st"
  shows "b \<in> set (batches config)
         \<and> st = determineWeekStatus (weekNumber w) (CalendarWeek.startDate w) config b"
proof -
  from in_generate [OF assms(1)] obtain k where
    w: "w = makeWeek config (1 + int k)
              (addDays (SemesterConfig.startDate (firstSemester config)) (7 * int k))"
    by blast
  from assms(2) show ?thesis
    unfolding w by (simp add: status_makeWeek makeWeek_fields split: if_splits)
qed

lemma displayText_not_EX_END:
  "st \<noteq> examEnd \<Longrightarrow> (\<forall>l. st \<noteq> graduation l \<or> l = ''Graduation'') \<Longrightarrow>
   getStatusDisplayText st \<noteq> ''EX-END''"
  by (cases st) auto

lemma determineWeekStatus_graduation_label:
  "determineWeekStatus weekIdx d config b = graduation l \<Longrightarrow> l = ''Graduation''"
  by (simp add: determineWeekStatus_def Let_def split: if_splits)

lemmas eval_status = nth_generate status_makeWeek scenario_def determineWeekStatus_def
  atIndex_def Let_def addDays_def

section \<open>C9: the \<open>examEnd\<close> branches are unreachable\<close>

text \<open>
  C9. No cell of a generated calendar has the status \<open>examEnd\<close>: in both semesters the
  range test of the exam weeks already returns \<open>exam\<close> for the last exam week, and the
  equality test that follows can no longer hold. Hence no generated status has the type
  \<open>examEnd\<close> and none is displayed as \<open>EX-END\<close>. This holds for all integer week
  counts, so in particular for the non-negative ones.
\<close>

theorem examEnd_unreachable:
  assumes "w \<in> set (generateCalendarWeeks config)" and "status w b = Some st"
  shows "st \<noteq> examEnd \<and> statusType st \<noteq> ''examEnd'' \<and> getStatusDisplayText st \<noteq> ''EX-END''"
proof -
  from status_generated [OF assms] have
    st: "st = determineWeekStatus (weekNumber w) (CalendarWeek.startDate w) config b"
    by simp
  have a: "st \<noteq> examEnd"
    unfolding st by (rule determineWeekStatus_not_examEnd)
  have b: "statusType st \<noteq> ''examEnd''"
    using a by (cases st) simp_all
  have c: "getStatusDisplayText st \<noteq> ''EX-END''"
  proof (rule displayText_not_EX_END [OF a])
    show "\<forall>l. st \<noteq> graduation l \<or> l = ''Graduation''"
      using determineWeekStatus_graduation_label [of "weekNumber w" "CalendarWeek.startDate w" config b]
      unfolding st by blast
  qed
  from a b c show ?thesis by simp
qed

theorem examEnd_unreachable_witness:
  "generateCalendarWeeks scenario ! 18 \<in> set (generateCalendarWeeks scenario)
   \<and> status (generateCalendarWeeks scenario ! 18) ''FAS/21'' = Some exam
   \<and> exam \<noteq> examEnd \<and> statusType exam \<noteq> ''examEnd'' \<and> getStatusDisplayText exam \<noteq> ''EX-END''"
proof -
  have m: "generateCalendarWeeks scenario ! 18 \<in> set (generateCalendarWeeks scenario)"
    by (rule nth_mem) (simp add: length_generate)
  have s: "status (generateCalendarWeeks scenario ! 18) ''FAS/21'' = Some exam"
    by (simp add: eval_status)
  from examEnd_unreachable [OF m s] m s show ?thesis by simp
qed

section \<open>C1: the last exam week of a semester\<close>

text \<open>
  C1. The code does not mark the last exam week: in the scenario the first semester has
  three exam weeks, its last exam week is week \<open>15 + 1 + 3 = 19\<close>, and the batch at
  index 0, \<open>FAS/21\<close>, gets \<open>exam\<close> there, where the comment of the branch below the
  range test (and the specification) wants \<open>examEnd\<close>.
\<close>

theorem last_exam_week_is_exam_for_first_batch:
  "weekNumber (generateCalendarWeeks scenario ! 18) = 19
   \<and> examWeeks (firstSemester scenario) = 3
   \<and> weeksCount (firstSemester scenario) + deadWeeks (firstSemester scenario)
       + examWeeks (firstSemester scenario) = 19
   \<and> atIndex (batches scenario) 0 = Some ''FAS/21''
   \<and> status (generateCalendarWeeks scenario ! 18) ''FAS/21'' = Some exam"
  by (simp add: eval_status makeWeek_fields)

section \<open>C2: the scenario\<close>

text \<open>
  C2, as stated, fails at the scenario's own configuration: week 22 is the last of the three
  vacation weeks 20 to 22 (the exam weeks are 17 to 19), so \<open>FAS/21\<close> has \<open>vacation\<close>
  and not \<open>examEnd\<close> there; and in week 23 the newest batch \<open>FAS/25\<close> has a lecture,
  not an orientation, since \<open>secondSemester.includeOrientation\<close> is false.
\<close>

theorem scenario_weeks_counterexample:
  "weekNumber (generateCalendarWeeks scenario ! 21) = 22
   \<and> status (generateCalendarWeeks scenario ! 21) ''FAS/21'' = Some vacation
   \<and> status (generateCalendarWeeks scenario ! 21) ''FAS/21'' \<noteq> Some examEnd
   \<and> weekNumber (generateCalendarWeeks scenario ! 22) = 23
   \<and> status (generateCalendarWeeks scenario ! 22) ''FAS/25'' = Some (lecture 2 1)
   \<and> status (generateCalendarWeeks scenario ! 22) ''FAS/25'' \<noteq> Some orientation"
  by (simp add: eval_status makeWeek_fields)

text \<open>
  C2, amended. In the scenario the weeks are numbered 1 to 52 (so the week of number \<open>n\<close>
  is at position \<open>n - 1\<close>); week 1 is \<open>lecture{semesterNumber: 1, weekNumber: 1}\<close> for
  every batch; week 16 is \<open>deadWeek\<close> for every batch; week 22 is \<open>vacation\<close> for every
  batch; week 23 is \<open>industrialTraining{weekNumber: 1}\<close> for \<open>FAS/21\<close> and
  \<open>lecture{semesterNumber: 2, weekNumber: 1}\<close> for \<open>FAS/22\<close> to \<open>FAS/25\<close>.
\<close>

theorem scenario_weeks:
  "map weekNumber (generateCalendarWeeks scenario) = [1..52]
   \<and> map (status (generateCalendarWeeks scenario ! 0)) (batches scenario) =
       [Some (lecture 1 1), Some (lecture 1 1), Some (lecture 1 1), Some (lecture 1 1),
        Some (lecture 1 1)]
   \<and> map (status (generateCalendarWeeks scenario ! 15)) (batches scenario) =
       [Some deadWeek, Some deadWeek, Some deadWeek, Some deadWeek, Some deadWeek]
   \<and> map (status (generateCalendarWeeks scenario ! 21)) (batches scenario) =
       [Some vacation, Some vacation, Some vacation, Some vacation, Some vacation]
   \<and> map (status (generateCalendarWeeks scenario ! 22)) (batches scenario) =
       [Some (industrialTraining 1), Some (lecture 2 1), Some (lecture 2 1),
        Some (lecture 2 1), Some (lecture 2 1)]"
proof -
  have b: "batches scenario = [''FAS/21'', ''FAS/22'', ''FAS/23'', ''FAS/24'', ''FAS/25'']"
    by (simp add: scenario_def)
  have n: "map weekNumber (generateCalendarWeeks scenario) = [1..52]"
    by (rule generate_numbers)
  have w1: "map (status (generateCalendarWeeks scenario ! 0)) (batches scenario) =
       [Some (lecture 1 1), Some (lecture 1 1), Some (lecture 1 1), Some (lecture 1 1),
        Some (lecture 1 1)]"
    unfolding b by (simp add: eval_status)
  have w16: "map (status (generateCalendarWeeks scenario ! 15)) (batches scenario) =
       [Some deadWeek, Some deadWeek, Some deadWeek, Some deadWeek, Some deadWeek]"
    unfolding b by (simp add: eval_status)
  have w22: "map (status (generateCalendarWeeks scenario ! 21)) (batches scenario) =
       [Some vacation, Some vacation, Some vacation, Some vacation, Some vacation]"
    unfolding b by (simp add: eval_status)
  have w23: "map (status (generateCalendarWeeks scenario ! 22)) (batches scenario) =
       [Some (industrialTraining 1), Some (lecture 2 1), Some (lecture 2 1),
        Some (lecture 2 1), Some (lecture 2 1)]"
    unfolding b by (simp add: eval_status)
  from n w1 w16 w22 w23 show ?thesis by blast
qed

section \<open>Positions in the batch list\<close>

lemma atIndex_first: "atIndex xs 0 = Some b \<longleftrightarrow> xs \<noteq> [] \<and> b = hd xs"
  by (cases xs) (auto simp: atIndex_def)

lemma atIndex_last: "atIndex xs (int (length xs) - 1) = Some b \<longleftrightarrow> xs \<noteq> [] \<and> b = last xs"
proof (cases "xs = []")
  case True
  then show ?thesis by (simp add: atIndex_def)
next
  case False
  then have "nat (int (length xs) - 1) = length xs - 1" by simp
  with False show ?thesis
    by (auto simp: atIndex_def last_conv_nth)
qed

lemma atIndex_nth_distinct:
  "distinct xs \<Longrightarrow> i < length xs \<Longrightarrow> atIndex xs (int k) = Some (xs ! i) \<Longrightarrow> i = k"
  by (auto simp: atIndex_def nth_eq_iff_index_eq split: if_splits)

lemma special_status_first_batch:
  "atIndex (batches config) 0 \<noteq> Some b \<Longrightarrow>
   statusType (determineWeekStatus weekIdx d config b)
     \<notin> {''examEnd'', ''industrialTraining'', ''graduation''}"
  by (simp add: determineWeekStatus_def Let_def split: option.splits)

lemma statusType_orientation:
  "statusType st = ''orientation'' \<longleftrightarrow> st = orientation"
  by (cases st) simp_all

lemma not_orientation_other_week:
  "weekIdx \<noteq> weeksCount (firstSemester config) + deadWeeks (firstSemester config)
                   + examWeeks (firstSemester config) + vacationWeeks (firstSemester config) + 1
   \<Longrightarrow> determineWeekStatus weekIdx d config b \<noteq> orientation"
  by (simp add: determineWeekStatus_def Let_def split: option.splits)

lemma not_orientation_other_batch:
  "atIndex (batches config) (int (length (batches config)) - 1) \<noteq> Some b
   \<Longrightarrow> determineWeekStatus weekIdx d config b \<noteq> orientation"
  by (simp add: determineWeekStatus_def Let_def split: option.splits)

section \<open>C4: statuses reserved to the first and the last batch\<close>

text \<open>
  C4. Let the batch names be distinct. In every generated week, a batch whose status has
  the type \<open>examEnd\<close>, \<open>industrialTraining\<close> or \<open>graduation\<close> is the batch at index 0, and a
  batch whose status is \<open>orientation\<close> is the batch at the last index; moreover the week is
  then week \<open>S2\<close>, one past the sum of the first semester's \<open>weeksCount\<close>, \<open>deadWeeks\<close>,
  \<open>examWeeks\<close> and \<open>vacationWeeks\<close>.
\<close>

theorem special_statuses_by_position:
  assumes "distinct (batches config)"
    and "w \<in> set (generateCalendarWeeks config)"
    and "i < length (batches config)"
    and "status w (batches config ! i) = Some st"
  shows "(statusType st \<in> {''examEnd'', ''industrialTraining'', ''graduation''} \<longrightarrow> i = 0)
       \<and> (statusType st = ''orientation'' \<longrightarrow>
            i = length (batches config) - 1
            \<and> weekNumber w = weeksCount (firstSemester config) + deadWeeks (firstSemester config)
                + examWeeks (firstSemester config) + vacationWeeks (firstSemester config) + 1)"
proof -
  let ?b = "batches config ! i"
  from status_generated [OF assms(2,4)] have
    st: "st = determineWeekStatus (weekNumber w) (CalendarWeek.startDate w) config ?b"
    by simp
  have first: "i = 0"
    if "statusType st \<in> {''examEnd'', ''industrialTraining'', ''graduation''}"
  proof -
    from that have "atIndex (batches config) (int 0) = Some ?b"
      unfolding st
      using special_status_first_batch [of config ?b "weekNumber w" "CalendarWeek.startDate w"]
      by auto
    from atIndex_nth_distinct [OF assms(1,3) this] show ?thesis .
  qed
  have last: "i = length (batches config) - 1
            \<and> weekNumber w = weeksCount (firstSemester config) + deadWeeks (firstSemester config)
                + examWeeks (firstSemester config) + vacationWeeks (firstSemester config) + 1"
    if "statusType st = ''orientation''"
  proof -
    from that have o: "determineWeekStatus (weekNumber w) (CalendarWeek.startDate w) config ?b
                       = orientation"
      unfolding st statusType_orientation .
    from o not_orientation_other_batch [of config ?b "weekNumber w" "CalendarWeek.startDate w"]
      not_orientation_other_week [of "weekNumber w" config "CalendarWeek.startDate w" ?b]
    have a: "atIndex (batches config) (int (length (batches config)) - 1) = Some ?b"
      and n: "weekNumber w = weeksCount (firstSemester config) + deadWeeks (firstSemester config)
                + examWeeks (firstSemester config) + vacationWeeks (firstSemester config) + 1"
      by blast+
    from assms(3) have e: "int (length (batches config)) - 1 = int (length (batches config) - 1)"
      by simp
    from a have "atIndex (batches config) (int (length (batches config) - 1)) = Some ?b"
      unfolding e .
    from atIndex_nth_distinct [OF assms(1,3) this] n show ?thesis by simp
  qed
  from first last show ?thesis by blast
qed

lemmas eval_orientation = nth_generate status_makeWeek scenarioWithOrientation_def scenario_def
  determineWeekStatus_def atIndex_def Let_def addDays_def makeWeek_fields

theorem special_statuses_by_position_witness:
  "distinct (batches scenarioWithOrientation)
   \<and> generateCalendarWeeks scenarioWithOrientation ! 22 \<in> set (generateCalendarWeeks scenarioWithOrientation)
   \<and> (4::nat) < length (batches scenarioWithOrientation)
   \<and> batches scenarioWithOrientation ! 4 = ''FAS/25''
   \<and> status (generateCalendarWeeks scenarioWithOrientation ! 22) ''FAS/25'' = Some orientation
   \<and> statusType orientation = ''orientation''
   \<and> (4::nat) = length (batches scenarioWithOrientation) - 1
   \<and> weekNumber (generateCalendarWeeks scenarioWithOrientation ! 22) = 23"
proof -
  have d: "distinct (batches scenarioWithOrientation)"
    by (simp add: scenarioWithOrientation_def scenario_def)
  have m: "generateCalendarWeeks scenarioWithOrientation ! 22
           \<in> set (generateCalendarWeeks scenarioWithOrientation)"
    by (rule nth_mem) (simp add: length_generate)
  have l: "(4::nat) < length (batches scenarioWithOrientation)"
    by (simp add: scenarioWithOrientation_def scenario_def)
  have b: "batches scenarioWithOrientation ! 4 = ''FAS/25''"
    by (simp add: scenarioWithOrientation_def scenario_def)
  have s: "status (generateCalendarWeeks scenarioWithOrientation ! 22)
             (batches scenarioWithOrientation ! 4) = Some orientation"
    unfolding b by (simp add: eval_orientation)
  from special_statuses_by_position [OF d m l s] d m l b s show ?thesis
    by (simp add: scenarioWithOrientation_def scenario_def)
qed

section \<open>C5: the orientation week\<close>

text \<open>
  C5. For a configuration of the data model (non-negative dead, exam and vacation weeks in
  the first semester, at least one lecture week in the second), at week \<open>S2\<close> the status
  is \<open>orientation\<close> when \<open>secondSemester.includeOrientation\<close> is true and the batch is the
  last element of \<open>config.batches\<close>; otherwise the batch follows the second-semester
  rules of that week: \<open>industrialTraining{weekNumber: 1}\<close> for the batch at index 0 when
  industrial training is included, \<open>lecture{semesterNumber: 2, weekNumber: 1}\<close> else.
  The week's start date plays no role.
\<close>

theorem orientation_week:
  assumes "0 \<le> deadWeeks (firstSemester config)"
    and "0 \<le> examWeeks (firstSemester config)"
    and "0 \<le> vacationWeeks (firstSemester config)"
    and "1 \<le> weeksCount (secondSemester config)"
  shows "determineWeekStatus
           (weeksCount (firstSemester config) + deadWeeks (firstSemester config)
            + examWeeks (firstSemester config) + vacationWeeks (firstSemester config) + 1)
           d config b =
         (if includeOrientation (secondSemester config)
             \<and> batches config \<noteq> [] \<and> b = last (batches config)
          then orientation
          else if batches config \<noteq> [] \<and> b = hd (batches config) \<and> includeIndustrialTraining config
          then industrialTraining 1
          else lecture 2 1)"
  using assms by (simp add: determineWeekStatus_def Let_def atIndex_first atIndex_last)

theorem orientation_week_witness:
  "0 \<le> deadWeeks (firstSemester scenarioWithOrientation)
   \<and> 0 \<le> examWeeks (firstSemester scenarioWithOrientation)
   \<and> 0 \<le> vacationWeeks (firstSemester scenarioWithOrientation)
   \<and> 1 \<le> weeksCount (secondSemester scenarioWithOrientation)
   \<and> includeOrientation (secondSemester scenarioWithOrientation)
   \<and> last (batches scenarioWithOrientation) = ''FAS/25''
   \<and> determineWeekStatus 23 20469 scenarioWithOrientation ''FAS/25'' = orientation
   \<and> determineWeekStatus 23 20469 scenarioWithOrientation ''FAS/21'' = industrialTraining 1
   \<and> determineWeekStatus 23 20469 scenarioWithOrientation ''FAS/22'' = lecture 2 1"
proof -
  have h: "0 \<le> deadWeeks (firstSemester scenarioWithOrientation)"
    "0 \<le> examWeeks (firstSemester scenarioWithOrientation)"
    "0 \<le> vacationWeeks (firstSemester scenarioWithOrientation)"
    "1 \<le> weeksCount (secondSemester scenarioWithOrientation)"
    by (simp_all add: scenarioWithOrientation_def scenario_def)
  from orientation_week [OF h, of 20469 "''FAS/25''"]
    orientation_week [OF h, of 20469 "''FAS/21''"]
    orientation_week [OF h, of 20469 "''FAS/22''"]
  show ?thesis
    by (simp add: scenarioWithOrientation_def scenario_def)
qed

section \<open>C6: the weeks after the last phase\<close>

lemma after_all_phases:
  assumes "0 \<le> deadWeeks (firstSemester config)"
    and "0 \<le> examWeeks (firstSemester config)"
    and "0 \<le> vacationWeeks (firstSemester config)"
    and "1 \<le> weeksCount (secondSemester config)"
    and "0 \<le> deadWeeks (secondSemester config)"
    and "0 \<le> examWeeks (secondSemester config)"
    and "weeksCount (firstSemester config) + deadWeeks (firstSemester config)
         + examWeeks (firstSemester config) + vacationWeeks (firstSemester config)
         + weeksCount (secondSemester config) + deadWeeks (secondSemester config)
         + examWeeks (secondSemester config) < weekIdx"
  shows "determineWeekStatus weekIdx d config b =
         (if (case graduationDate config of
                None \<Rightarrow> False
              | Some g \<Rightarrow> atIndex (batches config) 0 = Some b \<and> d \<le> g \<and> g \<le> d + 6)
          then graduation ''Graduation'' else vacation)"
  using assms by (simp add: determineWeekStatus_def Let_def addDays_def split: option.splits)

text \<open>
  C6. For a configuration of the data model (non-negative week counts, at least one
  lecture week in the second semester) and a generated week whose number lies after the
  last exam week of the second semester, that is after
  \<open>W1 + D1 + E1 + V1 + W2 + D2 + E2\<close>: a batch of the configuration has the status
  \<open>graduation\<close> with label \<open>Graduation\<close> exactly when the graduation date is set, the batch
  is the one at index 0 and the date lies in \<open>[weekStart, weekStart + 6]\<close>; in every other
  case it has \<open>vacation\<close>. The calendar has 52 weeks whatever the phase lengths are. The
  boundary configuration (one lecture week and one exam week per semester, nothing else,
  no graduation date) is the instance evaluated below: its week 5 is \<open>vacation\<close>.
\<close>

theorem remaining_weeks:
  assumes "0 \<le> deadWeeks (firstSemester config)"
    and "0 \<le> examWeeks (firstSemester config)"
    and "0 \<le> vacationWeeks (firstSemester config)"
    and "1 \<le> weeksCount (secondSemester config)"
    and "0 \<le> deadWeeks (secondSemester config)"
    and "0 \<le> examWeeks (secondSemester config)"
    and "w \<in> set (generateCalendarWeeks config)"
    and "weeksCount (firstSemester config) + deadWeeks (firstSemester config)
         + examWeeks (firstSemester config) + vacationWeeks (firstSemester config)
         + weeksCount (secondSemester config) + deadWeeks (secondSemester config)
         + examWeeks (secondSemester config) < weekNumber w"
    and "b \<in> set (batches config)"
  shows "status w b =
         Some (if (case graduationDate config of
                     None \<Rightarrow> False
                   | Some g \<Rightarrow> b = hd (batches config)
                        \<and> CalendarWeek.startDate w \<le> g \<and> g \<le> CalendarWeek.startDate w + 6)
               then graduation ''Graduation'' else vacation)
         \<and> length (generateCalendarWeeks config) = 52"
proof -
  from in_generate [OF assms(7)] obtain k where
    w: "w = makeWeek config (1 + int k)
              (addDays (SemesterConfig.startDate (firstSemester config)) (7 * int k))"
    by blast
  have s: "status w b = Some (determineWeekStatus (weekNumber w) (CalendarWeek.startDate w) config b)"
    unfolding w using assms(9) by (simp add: status_makeWeek makeWeek_fields)
  from assms(9) have ne: "batches config \<noteq> []" by auto
  have "determineWeekStatus (weekNumber w) (CalendarWeek.startDate w) config b =
         (if (case graduationDate config of
                None \<Rightarrow> False
              | Some g \<Rightarrow> b = hd (batches config)
                   \<and> CalendarWeek.startDate w \<le> g \<and> g \<le> CalendarWeek.startDate w + 6)
          then graduation ''Graduation'' else vacation)"
    unfolding after_all_phases [OF assms(1-6) assms(8)] atIndex_first using ne
    by (simp split: option.splits)
  with s show ?thesis by (simp add: length_generate)
qed

lemmas eval_boundary = nth_generate status_makeWeek boundaryConfig_def scenario_def
  determineWeekStatus_def atIndex_def Let_def addDays_def makeWeek_fields

theorem remaining_weeks_witness:
  "weeksCount (firstSemester boundaryConfig) = 1 \<and> deadWeeks (firstSemester boundaryConfig) = 0
   \<and> examWeeks (firstSemester boundaryConfig) = 1 \<and> vacationWeeks (firstSemester boundaryConfig) = 0
   \<and> weeksCount (secondSemester boundaryConfig) = 1 \<and> deadWeeks (secondSemester boundaryConfig) = 0
   \<and> examWeeks (secondSemester boundaryConfig) = 1 \<and> vacationWeeks (secondSemester boundaryConfig) = 0
   \<and> graduationDate boundaryConfig = None
   \<and> generateCalendarWeeks boundaryConfig ! 4 \<in> set (generateCalendarWeeks boundaryConfig)
   \<and> weekNumber (generateCalendarWeeks boundaryConfig ! 4) = 5
   \<and> ''FAS/21'' \<in> set (batches boundaryConfig)
   \<and> status (generateCalendarWeeks boundaryConfig ! 4) ''FAS/21'' = Some vacation
   \<and> length (generateCalendarWeeks boundaryConfig) = 52
   \<and> weekNumber (generateCalendarWeeks scenario ! 43) = 44
   \<and> CalendarWeek.startDate (generateCalendarWeeks scenario ! 43) = 20616
   \<and> graduationDate scenario = Some 20619
   \<and> status (generateCalendarWeeks scenario ! 43) ''FAS/21'' = Some (graduation ''Graduation'')
   \<and> status (generateCalendarWeeks scenario ! 43) ''FAS/22'' = Some vacation"
proof -
  have c: "weeksCount (firstSemester boundaryConfig) = 1" "deadWeeks (firstSemester boundaryConfig) = 0"
    "examWeeks (firstSemester boundaryConfig) = 1" "vacationWeeks (firstSemester boundaryConfig) = 0"
    "weeksCount (secondSemester boundaryConfig) = 1" "deadWeeks (secondSemester boundaryConfig) = 0"
    "examWeeks (secondSemester boundaryConfig) = 1" "vacationWeeks (secondSemester boundaryConfig) = 0"
    "graduationDate boundaryConfig = None"
    by (simp_all add: boundaryConfig_def scenario_def)
  have m: "generateCalendarWeeks boundaryConfig ! 4 \<in> set (generateCalendarWeeks boundaryConfig)"
    by (rule nth_mem) (simp add: length_generate)
  have n: "weekNumber (generateCalendarWeeks boundaryConfig ! 4) = 5"
    by (simp add: nth_generate makeWeek_fields)
  have b: "''FAS/21'' \<in> set (batches boundaryConfig)"
    by (simp add: boundaryConfig_def scenario_def)
  have v: "status (generateCalendarWeeks boundaryConfig ! 4) ''FAS/21'' = Some vacation
        \<and> length (generateCalendarWeeks boundaryConfig) = 52"
    using remaining_weeks [of boundaryConfig "generateCalendarWeeks boundaryConfig ! 4" "''FAS/21''"]
      m b by (simp add: c n)
  have m': "generateCalendarWeeks scenario ! 43 \<in> set (generateCalendarWeeks scenario)"
    by (rule nth_mem) (simp add: length_generate)
  have n': "weekNumber (generateCalendarWeeks scenario ! 43) = 44"
    "CalendarWeek.startDate (generateCalendarWeeks scenario ! 43) = 20616"
    by (simp_all add: nth_generate makeWeek_fields scenario_def addDays_def)
  have g: "graduationDate scenario = Some 20619"
    by (simp add: scenario_def)
  have "status (generateCalendarWeeks scenario ! 43) ''FAS/21'' = Some (graduation ''Graduation'')"
    using remaining_weeks [of scenario "generateCalendarWeeks scenario ! 43" "''FAS/21''"] m'
    by (simp add: n' g) (simp add: scenario_def)
  moreover
  have "status (generateCalendarWeeks scenario ! 43) ''FAS/22'' = Some vacation"
    using remaining_weeks [of scenario "generateCalendarWeeks scenario ! 43" "''FAS/22''"] m'
    by (simp add: n' g) (simp add: scenario_def)
  ultimately show ?thesis
    using c m n b v n' g by simp
qed

section \<open>C7: the display mapping\<close>

text \<open>
  C7, as stated, fails for a \<open>graduation\<close> status whose label is not \<open>Graduation\<close>: the
  label field of that variant has type \<open>string\<close>, and the display text is that label.
\<close>

theorem graduation_label_counterexample:
  "getStatusDisplayText (graduation ''Convocation'') = ''Convocation''
   \<and> getStatusDisplayText (graduation ''Convocation'') \<noteq> ''Graduation''"
  by simp

text \<open>
  C7, amended. Every status has the background colour, text colour and text of the table,
  where the text of a \<open>graduation\<close> status is its own label; and every \<open>graduation\<close>
  status that \<open>determineWeekStatus\<close> returns has the label \<open>Graduation\<close>. Black is
  \<open>#000000\<close> and white is \<open>#ffffff\<close>.
\<close>

theorem display_mapping:
  "(getColorForStatus st, getTextColorForStatus st, getStatusDisplayText st) =
     (case st of
        lecture sem week \<Rightarrow>
          (''#ffffff'', ''#000000'',
           ''L'' @ numToString sem @ '', S'' @ numToString sem @ '' - '' @ numToString week)
      | orientation \<Rightarrow> (''#ffff00'', ''#000000'', ''Orientation'')
      | deadWeek \<Rightarrow> (''#ff6600'', ''#000000'', ''DW'')
      | exam \<Rightarrow> (''#3366ff'', ''#ffffff'', ''EX'')
      | examEnd \<Rightarrow> (''#ff0000'', ''#ffffff'', ''EX-END'')
      | vacation \<Rightarrow> (''#ccffcc'', ''#000000'', ''Vaca.'')
      | industrialTraining week \<Rightarrow> (''#b2a1c7'', ''#000000'', ''IT - '' @ numToString week)
      | graduation l \<Rightarrow> (''#ff00ff'', ''#000000'', l))
   \<and> (case determineWeekStatus weekIdx d config b of
         graduation l \<Rightarrow> l = ''Graduation''
       | _ \<Rightarrow> True)"
proof -
  have "case determineWeekStatus weekIdx d config b of graduation l \<Rightarrow> l = ''Graduation'' | _ \<Rightarrow> True"
    using determineWeekStatus_graduation_label [of weekIdx d config b]
    by (cases "determineWeekStatus weekIdx d config b") simp_all
  then show ?thesis by (cases st) simp_all
qed

section \<open>C10: fields the generator does not read\<close>

lemma determineWeekStatus_ignores:
  "determineWeekStatus weekIdx d
     (config \<lparr> academicYear := ay, faculty := fa, university := un,
               firstSemester := (firstSemester config) \<lparr> includeOrientation := fo \<rparr>,
               secondSemester := (secondSemester config) \<lparr> SemesterConfig.startDate := sd \<rparr> \<rparr>) b
   = determineWeekStatus weekIdx d config b"
  by (simp add: determineWeekStatus_def Let_def cong: option.case_cong)

text \<open>
  C10. The generated calendar does not depend on \<open>academicYear\<close>, \<open>faculty\<close>,
  \<open>university\<close>, \<open>firstSemester.includeOrientation\<close> or \<open>secondSemester.startDate\<close>:
  replacing these five fields of a configuration by any values leaves the output
  unchanged. Two configurations that agree on every other field differ by such a
  replacement, so their calendars are equal.
\<close>

theorem generator_ignores_unread_fields:
  "generateCalendarWeeks
     (config \<lparr> academicYear := ay, faculty := fa, university := un,
               firstSemester := (firstSemester config) \<lparr> includeOrientation := fo \<rparr>,
               secondSemester := (secondSemester config) \<lparr> SemesterConfig.startDate := sd \<rparr> \<rparr>)
   = generateCalendarWeeks config"
  by (simp add: generateCalendarWeeks_map makeWeek_def determineWeekStatus_ignores del: upt_Suc)

section \<open>The rows of the exported sheet\<close>

lemma modifyCell_append:
  "k = Suc (length cs) \<Longrightarrow> modifyCell k f cs = cs @ [f nullCell]"
  by (simp add: modifyCell_def Let_def nth_append list_update_append)

lemma length_modifyCell:
  "k \<le> length cs \<Longrightarrow> length (modifyCell k f cs) = length cs"
  by (simp add: modifyCell_def Let_def)

lemma nth_modifyCell_other:
  "k \<le> length cs \<Longrightarrow> n \<noteq> k - 1 \<Longrightarrow> modifyCell k f cs ! n = cs ! n"
  by (simp add: modifyCell_def Let_def)

lemma nth_modifyCell_same:
  "0 < k \<Longrightarrow> k \<le> length cs \<Longrightarrow> modifyCell k f cs ! (k - 1) = f (cs ! (k - 1))"
  by (simp add: modifyCell_def Let_def)

lemma addBatchStatuses_ok:
  "length cs = 8 + k \<Longrightarrow> \<forall>b\<in>set bs. status week b \<noteq> None \<Longrightarrow>
   addBatchStatuses week bs k cs =
     Inr (cs @ map (\<lambda>b. statusCell (the (status week b)) nullCell) bs)"
proof (induction bs arbitrary: k cs)
  case Nil
  show ?case by simp
next
  case (Cons b bs)
  from Cons.prems(2) obtain st where st: "status week b = Some st" by auto
  have m: "modifyCell (9 + k) (statusCell st) cs = cs @ [statusCell st nullCell]"
    using Cons.prems(1) by (simp add: modifyCell_append)
  have "addBatchStatuses week bs (Suc k) (cs @ [statusCell st nullCell]) =
        Inr ((cs @ [statusCell st nullCell]) @ map (\<lambda>b. statusCell (the (status week b)) nullCell) bs)"
    using Cons.prems by (intro Cons.IH) simp_all
  then show ?case by (simp add: st m)
qed

lemma setBatchHeaders_eq:
  "length cs = 8 + k \<Longrightarrow>
   setBatchHeaders bs k cs = cs @ map (\<lambda>b. nullCell \<lparr> cellValue := Some b \<rparr>) bs"
proof (induction bs arbitrary: k cs)
  case Nil
  show ?case by simp
next
  case (Cons b bs)
  have m: "modifyCell (9 + k) (\<lambda>c. c \<lparr> cellValue := Some b \<rparr>) cs
           = cs @ [nullCell \<lparr> cellValue := Some b \<rparr>]"
    using Cons.prems by (simp add: modifyCell_append)
  have "setBatchHeaders bs (Suc k) (cs @ [nullCell \<lparr> cellValue := Some b \<rparr>]) =
        (cs @ [nullCell \<lparr> cellValue := Some b \<rparr>]) @ map (\<lambda>b. nullCell \<lparr> cellValue := Some b \<rparr>) bs"
    using Cons.prems by (intro Cons.IH) simp
  then show ?case by (simp add: m)
qed

lemma cellValue_styleHeaderCell: "cellValue (styleHeaderCell c) = cellValue c"
  by (simp add: styleHeaderCell_def)

lemma modifyCell_id:
  "0 < k \<Longrightarrow> k \<le> length cs \<Longrightarrow> modifyCell k (\<lambda>c. c) cs = cs"
  by (simp add: modifyCell_def Let_def)

lemma fold_modifyCell_props:
  "\<forall>col\<in>set cols. col \<le> length row \<Longrightarrow>
   length (fold (\<lambda>col row. modifyCell col f row) cols row) = length row
   \<and> (\<forall>n. (\<forall>col\<in>set cols. n \<noteq> col - 1) \<longrightarrow>
          fold (\<lambda>col row. modifyCell col f row) cols row ! n = row ! n)"
proof (induction cols arbitrary: row)
  case Nil
  show ?case by simp
next
  case (Cons col cols)
  from Cons.prems have c: "col \<le> length row" by simp
  have l: "length (modifyCell col f row) = length row"
    by (rule length_modifyCell [OF c])
  from Cons.prems have "\<forall>c\<in>set cols. c \<le> length (modifyCell col f row)"
    by (simp add: l)
  from Cons.IH [OF this] show ?case
    by (simp add: l nth_modifyCell_other [OF c])
qed

lemma mergeCellsInRow_props:
  assumes "0 < left" and "left \<le> right" and "right \<le> length cs"
  shows "length (mergeCellsInRow left right cs) = length cs"
    and "right \<le> n \<Longrightarrow> mergeCellsInRow left right cs ! n = cs ! n"
proof -
  let ?f = "\<lambda>c. (cs ! (left - 1)) \<lparr> master := Some left \<rparr>"
  have id: "modifyCell left (\<lambda>c. c) cs = cs"
    using assms by (intro modifyCell_id) simp_all
  have m: "mergeCellsInRow left right cs =
           fold (\<lambda>col row. modifyCell col ?f row) [Suc left..<Suc right] cs"
    by (simp add: mergeCellsInRow_def Let_def id del: upt_Suc)
  have "\<forall>col\<in>set [Suc left..<Suc right]. col \<le> length cs"
    using assms by auto
  from fold_modifyCell_props [OF this, of ?f] have
    p: "length (fold (\<lambda>col row. modifyCell col ?f row) [Suc left..<Suc right] cs) = length cs"
    and q: "\<And>n. (\<forall>col\<in>set [Suc left..<Suc right]. n \<noteq> col - 1) \<Longrightarrow>
          fold (\<lambda>col row. modifyCell col ?f row) [Suc left..<Suc right] cs ! n = cs ! n"
    by blast+
  show "length (mergeCellsInRow left right cs) = length cs"
    unfolding m by (rule p)
  show "mergeCellsInRow left right cs ! n = cs ! n" if "right \<le> n"
  proof -
    have "\<forall>col\<in>set [Suc left..<Suc right]. n \<noteq> col - 1"
      using that by auto
    from q [OF this] show ?thesis unfolding m .
  qed
qed

lemma headerRow_batch:
  assumes "j < length (batches config)"
  shows "cellValue (cells (headerRow config) ! (8 + j)) = Some (batches config ! j)"
proof -
  let ?base = "cells (newRow ['''', ''Year / Dates'', '''', '''', '''', ''Week'', '''', ''''])"
  have l: "length ?base = 8 + 0" by (simp add: newRow_def)
  have "cells (headerRow config) =
        map styleHeaderCell (?base @ map (\<lambda>b. nullCell \<lparr> cellValue := Some b \<rparr>) (batches config))"
    unfolding headerRow_def setBatchHeaders_eq [OF l] by simp
  then show ?thesis
    using assms l by (simp add: nth_append cellValue_styleHeaderCell)
qed

lemma length_headerRow: "length (cells (headerRow config)) = 8 + length (batches config)"
proof -
  let ?base = "cells (newRow ['''', ''Year / Dates'', '''', '''', '''', ''Week'', '''', ''''])"
  have l: "length ?base = 8 + 0" by (simp add: newRow_def)
  show ?thesis
    unfolding headerRow_def setBatchHeaders_eq [OF l] by (simp add: newRow_def)
qed

lemma merged_headerRow_batch:
  assumes "j < length (batches config)"
  shows "cellValue (cells (mergeRow 2 4 (headerRow config)) ! (8 + j)) = Some (batches config ! j)"
proof -
  have "mergeCellsInRow 2 4 (cells (headerRow config)) ! (8 + j) = cells (headerRow config) ! (8 + j)"
    by (rule mergeCellsInRow_props(2)) (simp_all add: length_headerRow)
  then show ?thesis
    by (simp add: mergeRow_def headerRow_batch [OF assms])
qed

lemma styleDateCells_props:
  assumes "8 \<le> length cs"
  shows "length (styleDateCells cs) = length cs"
    and "\<And>n. 8 \<le> n \<Longrightarrow> styleDateCells cs ! n = cs ! n"
    and "cellValue (styleDateCells cs ! 1) = cellValue (cs ! 1)"
    and "cellValue (styleDateCells cs ! 2) = cellValue (cs ! 2)"
    and "cellValue (styleDateCells cs ! 3) = cellValue (cs ! 3)"
    and "cellValue (styleDateCells cs ! 5) = cellValue (cs ! 5)"
  using assms
  by (simp_all add: styleDateCells_def modifyCell_def Let_def styleDateCell_def nth_list_update)

lemma dataRow_ok:
  assumes "\<forall>b\<in>set (batches config). status week b \<noteq> None"
  shows "\<exists>r. dataRow week config = Inr r
           \<and> length (cells r) = 8 + length (batches config)
           \<and> cellValue (cells r ! 1) = Some (format (CalendarWeek.startDate week) [Tok_yyyy])
           \<and> cellValue (cells r ! 2) =
               Some (format (CalendarWeek.startDate week) [Tok_dd, Lit ''-'', Tok_MMM])
           \<and> cellValue (cells r ! 3) = Some (format (endDate week) [Tok_dd, Lit ''-'', Tok_MMM])
           \<and> cellValue (cells r ! 5) = Some (numToString (weekNumber week))
           \<and> (\<forall>j<length (batches config).
                 cells r ! (8 + j) = statusCell (the (status week (batches config ! j))) nullCell)"
proof -
  let ?vals = "['''', format (CalendarWeek.startDate week) [Tok_yyyy],
                format (CalendarWeek.startDate week) [Tok_dd, Lit ''-'', Tok_MMM],
                format (endDate week) [Tok_dd, Lit ''-'', Tok_MMM], '''',
                numToString (weekNumber week), '''', '''']"
  let ?base = "cells (newRow ?vals)"
  let ?cs = "?base @ map (\<lambda>b. statusCell (the (status week b)) nullCell) (batches config)"
  have l: "length ?base = 8 + 0" by (simp add: newRow_def)
  have a: "addBatchStatuses week (batches config) 0 ?base = Inr ?cs"
    by (rule addBatchStatuses_ok [OF l assms])
  have r: "dataRow week config = Inr \<lparr> cells = styleDateCells ?cs, height = Some 18 \<rparr>"
    by (simp add: dataRow_def Let_def a)
  have len: "8 \<le> length ?cs" by (simp add: newRow_def)
  have v: "cellValue (?cs ! 1) = Some (format (CalendarWeek.startDate week) [Tok_yyyy])"
      "cellValue (?cs ! 2) = Some (format (CalendarWeek.startDate week) [Tok_dd, Lit ''-'', Tok_MMM])"
      "cellValue (?cs ! 3) = Some (format (endDate week) [Tok_dd, Lit ''-'', Tok_MMM])"
      "cellValue (?cs ! 5) = Some (numToString (weekNumber week))"
    by (simp_all add: newRow_def valueCell_def nullCell_def)
  have b: "\<forall>j<length (batches config).
             styleDateCells ?cs ! (8 + j) = statusCell (the (status week (batches config ! j))) nullCell"
  proof (intro allI impI)
    fix j assume j: "j < length (batches config)"
    have "styleDateCells ?cs ! (8 + j) = ?cs ! (8 + j)"
      by (rule styleDateCells_props(2) [OF len]) simp
    also have "\<dots> = statusCell (the (status week (batches config ! j))) nullCell"
      using j l by (simp add: nth_append)
    finally show "styleDateCells ?cs ! (8 + j) = statusCell (the (status week (batches config ! j))) nullCell" .
  qed
  have n: "length (styleDateCells ?cs) = 8 + length (batches config)"
    unfolding styleDateCells_props(1) [OF len] by (simp add: newRow_def)
  show ?thesis
    unfolding r using n v b styleDateCells_props(3-6) [OF len] by simp
qed

lemma dataRows_ok:
  "\<forall>w\<in>set weeks. \<forall>b\<in>set (batches config). status w b \<noteq> None \<Longrightarrow>
   \<exists>rs. dataRows weeks config = Inr rs \<and> length rs = length weeks
        \<and> (\<forall>i<length weeks. dataRow (weeks ! i) config = Inr (rs ! i))"
proof (induction weeks)
  case Nil
  show ?case by simp
next
  case (Cons w weeks)
  from Cons.prems have "\<forall>b\<in>set (batches config). status w b \<noteq> None" by simp
  from dataRow_ok [OF this] obtain r where r: "dataRow w config = Inr r" by blast
  from Cons obtain rs where rs: "dataRows weeks config = Inr rs" "length rs = length weeks"
      "\<forall>i<length weeks. dataRow (weeks ! i) config = Inr (rs ! i)"
    by auto
  have "\<forall>i<length (w # weeks). dataRow ((w # weeks) ! i) config = Inr ((r # rs) ! i)"
    using r rs(3) by (auto simp: nth_Cons split: nat.splits)
  with r rs show ?case by simp
qed

lemma generated_status_defined:
  "w \<in> set (generateCalendarWeeks config) \<Longrightarrow> b \<in> set (batches config) \<Longrightarrow> status w b \<noteq> None"
  by (auto dest!: in_generate simp: status_makeWeek)

lemma hash_removeHash_color: "CHR ''#'' # removeHash (getColorForStatus st) = getColorForStatus st"
  by (cases st) simp_all

lemma hash_removeHash_textColor:
  "CHR ''#'' # removeHash (getTextColorForStatus st) = getTextColorForStatus st"
  by (cases st) simp_all

lemma legend_length: "length legendItems = 5"
  by (simp add: legendItems_def)

section \<open>C8: the exported sheet\<close>

text \<open>
  C8. Exporting the generated calendar succeeds and saves a file named
  \<open>Academic_Calendar_{academicYear}.xlsx\<close>. Its sheet has the row of column headers, the
  title row, an empty row, the header row and an empty row, then one data row per generated
  week in week order (sheet row \<open>6 + i\<close>, at position \<open>5 + i\<close> of the row list, is the row
  of week \<open>i + 1\<close> and shows that number in column 6), then the eight rows of the legend:
  65 rows in all, the header row with the batch names being sheet row 4. Batch \<open>j\<close> has column \<open>9 + j\<close>, after the eight
  leading columns: the column and the header cell carry the batch name, and in each data
  row the cell of that column has the text \<open>getStatusDisplayText\<close>, the fill colour
  \<open>getColorForStatus\<close> and the font colour \<open>getTextColorForStatus\<close> of that week's status
  for that batch, the colours written without their leading \<open>#\<close>.
\<close>

theorem export_layout:
  assumes "i < 52" and "j < length (batches config)"
  shows "case exportToExcel (generateCalendarWeeks config) config of
           Inl e \<Rightarrow> False
         | Inr file \<Rightarrow>
             fileName file = ''Academic_Calendar_'' @ academicYear config @ ''.xlsx''
             \<and> length (rows (sheet file)) = 5 + 52 + 8
             \<and> length (columns (sheet file)) = 8 + length (batches config)
             \<and> columns (sheet file) ! (8 + j) = (batches config ! j, 15)
             \<and> cellValue (cells (rows (sheet file) ! 3) ! (8 + j)) = Some (batches config ! j)
             \<and> (case status (generateCalendarWeeks config ! i) (batches config ! j) of
                   None \<Rightarrow> False
                 | Some st \<Rightarrow>
                     (let row = rows (sheet file) ! (5 + i); cell = cells row ! (8 + j)
                      in length (cells row) = 8 + length (batches config)
                         \<and> cellValue (cells row ! 5) = Some (numToString (int i + 1))
                         \<and> cellValue cell = Some (getStatusDisplayText st)
                         \<and> fill cell = Some \<lparr> fillType = ''pattern'', pattern = ''solid'',
                                                fgColor = removeHash (getColorForStatus st) \<rparr>
                         \<and> CHR ''#'' # removeHash (getColorForStatus st) = getColorForStatus st
                         \<and> font cell = Some \<lparr> bold = False, fontSize = 10,
                                                color = Some (removeHash (getTextColorForStatus st)) \<rparr>
                         \<and> CHR ''#'' # removeHash (getTextColorForStatus st)
                             = getTextColorForStatus st))"
proof -
  let ?g = "generateCalendarWeeks config"
  let ?w = "?g ! i"
  let ?b = "batches config ! j"
  have def: "\<forall>w\<in>set ?g. \<forall>b\<in>set (batches config). status w b \<noteq> None"
    using generated_status_defined by blast
  from dataRows_ok [OF def] obtain rs where
    rs: "dataRows ?g config = Inr rs" "length rs = length ?g"
        "\<forall>i<length ?g. dataRow (?g ! i) config = Inr (rs ! i)"
    by blast
  have len: "length rs = 52" using rs(2) by (simp add: length_generate)
  have wmem: "?w \<in> set ?g" using assms(1) by (simp add: length_generate)
  have bmem: "?b \<in> set (batches config)" using assms(2) by simp
  from generated_status_defined [OF wmem bmem] obtain st where st: "status ?w ?b = Some st"
    by auto
  have "\<forall>b\<in>set (batches config). status ?w b \<noteq> None"
    using def wmem by blast
  from dataRow_ok [OF this] obtain r where
    r: "dataRow ?w config = Inr r" "length (cells r) = 8 + length (batches config)"
       "cellValue (cells r ! 5) = Some (numToString (weekNumber ?w))"
       "\<forall>j<length (batches config). cells r ! (8 + j) = statusCell (the (status ?w (batches config ! j))) nullCell"
    by blast
  have ri: "rs ! i = r" using rs(3) r(1) assms(1) by (simp add: length_generate)
  have cell: "cells r ! (8 + j) = statusCell st nullCell"
    using r(4) assms(2) st by simp
  have wn: "weekNumber ?w = int i + 1"
    using assms(1) by (simp add: nth_generate makeWeek_fields)
  let ?file = "\<lparr> fileName = ''Academic_Calendar_'' @ academicYear config @ ''.xlsx'',
                mimeType = ''application/vnd.openxmlformats-officedocument.spreadsheetml.sheet'',
                sheet =
                  \<lparr> sheetName = ''Academic Calendar'',
                    columns = sheetColumns config,
                    rows = [mergeRow 2 (8 + length (batches config)) (columnHeaderRow config),
                            titleRow config, newRow [],
                            mergeRow 2 4 (headerRow config), newRow []]
                           @ rs
                           @ [newRow [], newRow [], legendHeading]
                           @ legendItems,
                    merges = [(1, 2, 1, 8 + int (length (batches config))), (4, 2, 4, 4)] \<rparr> \<rparr>"
  have e: "exportToExcel ?g config = Inr ?file"
    by (simp add: exportToExcel_def rs(1))
  have rowi: "rows (sheet ?file) ! (5 + i) = r"
    using assms(1) len ri by (simp add: nth_append)
  have row3: "rows (sheet ?file) ! 3 = mergeRow 2 4 (headerRow config)"
    by simp
  have nrows: "length (rows (sheet ?file)) = 5 + 52 + 8"
    by (simp add: len legend_length)
  have col: "columns (sheet ?file) ! (8 + j) = (batches config ! j, 15)"
    using assms(2) by (simp add: sheetColumns_def nth_append)
  have ncol: "length (columns (sheet ?file)) = 8 + length (batches config)"
    by (simp add: sheetColumns_def)
  have c1: "cellValue (statusCell st nullCell) = Some (getStatusDisplayText st)"
    and c2: "fill (statusCell st nullCell) =
               Some \<lparr> fillType = ''pattern'', pattern = ''solid'',
                      fgColor = removeHash (getColorForStatus st) \<rparr>"
    and c3: "font (statusCell st nullCell) =
               Some \<lparr> bold = False, fontSize = 10,
                      color = Some (removeHash (getTextColorForStatus st)) \<rparr>"
    by (simp_all add: statusCell_def)
  show ?thesis
    unfolding e sum.case st option.case Let_def rowi row3 cell
    using nrows ncol col merged_headerRow_batch [OF assms(2)] r(2) r(3) c1 c2 c3
    by (simp add: wn hash_removeHash_color hash_removeHash_textColor)
qed

theorem export_layout_witness:
  "(18::nat) < 52 \<and> (0::nat) < length (batches scenario)
   \<and> status (generateCalendarWeeks scenario ! 18) (batches scenario ! 0) = Some exam
   \<and> (case exportToExcel (generateCalendarWeeks scenario) scenario of
         Inl e \<Rightarrow> False
       | Inr file \<Rightarrow>
           fileName file = ''Academic_Calendar_2025-2026.xlsx''
           \<and> length (rows (sheet file)) = 65
           \<and> length (columns (sheet file)) = 13
           \<and> columns (sheet file) ! 8 = (''FAS/21'', 15)
           \<and> cellValue (cells (rows (sheet file) ! 3) ! 8) = Some ''FAS/21''
           \<and> length (cells (rows (sheet file) ! 23)) = 13
           \<and> cellValue (cells (rows (sheet file) ! 23) ! 5) = Some ''19''
           \<and> cellValue (cells (rows (sheet file) ! 23) ! 8) = Some ''EX''
           \<and> fill (cells (rows (sheet file) ! 23) ! 8) =
               Some \<lparr> fillType = ''pattern'', pattern = ''solid'', fgColor = ''3366ff'' \<rparr>
           \<and> font (cells (rows (sheet file) ! 23) ! 8) =
               Some \<lparr> bold = False, fontSize = 10, color = Some ''ffffff'' \<rparr>)"
proof -
  have i: "(18::nat) < 52" by simp
  have j: "(0::nat) < length (batches scenario)" by (simp add: scenario_def)
  have b: "batches scenario ! 0 = ''FAS/21''" by (simp add: scenario_def)
  have s: "status (generateCalendarWeeks scenario ! 18) (batches scenario ! 0) = Some exam"
    unfolding b by (simp add: eval_status)
  have a: "academicYear scenario = ''2025-2026''" "length (batches scenario) = 5"
    by (simp_all add: scenario_def)
  have n: "numToString 19 = ''19''"
    by code_simp
  from export_layout [OF i j] i j s show ?thesis
    unfolding s option.case Let_def b a
    by (simp add: n split: sum.splits)
qed

end
